theory Spec2Isabelle
  imports Complex_Main "HOL-Library.List_Lexorder" "HOL-Library.Product_Lexorder" "HOL-Library.Multiset"
begin

section \<open>Python values used by both tools\<close>

text \<open>
  The two programs, \<^verbatim>\<open>mergepdf.py\<close> and \<^verbatim>\<open>resizepdf.py\<close>, are Python 3.
  A Python \<^verbatim>\<open>str\<close> is a sequence of Unicode code points. Here a string is a list of
  \<^typ>\<open>char\<close>, and a \<^typ>\<open>char\<close> with value \<open>n\<close> stands for the code point
  \<open>U+00nn\<close>: the model covers the strings whose code points lie below \<open>U+0100\<close>.
  The character classes below are Unicode's, restricted to that range.

  An exception is a value of \<open>py_error\<close>; the string it carries is what
  \<^verbatim>\<open>str(e)\<close> gives. A computation that can raise returns \<open>py_error + 'a\<close>.
\<close>

datatype py_error =
    ValueError string
  | TypeError string
  | ZeroDivisionError string
  | OverflowError string
  | OSError string
  | RuntimeError string

fun str_of_error :: "py_error \<Rightarrow> string" where
  "str_of_error (ValueError m) = m"
| "str_of_error (TypeError m) = m"
| "str_of_error (ZeroDivisionError m) = m"
| "str_of_error (OverflowError m) = m"
| "str_of_error (OSError m) = m"
| "str_of_error (RuntimeError m) = m"

text \<open>
  A list comprehension or a loop over fallible steps evaluates them left to right and
  stops at the first exception.
\<close>

fun collect :: "(py_error + 'a) list \<Rightarrow> py_error + 'a list" where
  "collect [] = Inr []"
| "collect (Inl e # rs) = Inl e"
| "collect (Inr x # rs) = (case collect rs of Inl e \<Rightarrow> Inl e | Inr xs \<Rightarrow> Inr (x # xs))"

subsection \<open>Character classes\<close>

text \<open>
  \<^verbatim>\<open>\d\<close> in a \<^verbatim>\<open>str\<close> pattern and \<^verbatim>\<open>int()\<close> accept the decimal digits
  (category Nd): below \<open>U+0100\<close> these are \<open>0\<close> to \<open>9\<close>. \<^verbatim>\<open>str.isdigit()\<close> accepts
  every character whose numeric type is Digit or Decimal: below \<open>U+0100\<close> the decimal
  digits and the superscripts \<open>U+00B2\<close>, \<open>U+00B3\<close> and \<open>U+00B9\<close>.
\<close>

definition is_decimal :: "char \<Rightarrow> bool" where
  "is_decimal c \<longleftrightarrow> 48 \<le> (of_char c :: nat) \<and> (of_char c :: nat) \<le> 57"

definition non_decimal :: "char \<Rightarrow> bool" where
  "non_decimal c \<longleftrightarrow> \<not> is_decimal c"

definition isdigit_char :: "char \<Rightarrow> bool" where
  "isdigit_char c \<longleftrightarrow>
     is_decimal c \<or> (of_char c :: nat) = 178 \<or> (of_char c :: nat) = 179
       \<or> (of_char c :: nat) = 185"


definition lower_char :: "char \<Rightarrow> char" where
  "lower_char c =
     (if (65 \<le> (of_char c :: nat) \<and> (of_char c :: nat) \<le> 90)
         \<or> (192 \<le> (of_char c :: nat) \<and> (of_char c :: nat) \<le> 222
             \<and> (of_char c :: nat) \<noteq> 215)
      then char_of ((of_char c :: nat) + 32) else c)"

subsection \<open>String methods\<close>

definition isdigit :: "string \<Rightarrow> bool" where
  "isdigit text \<longleftrightarrow> text \<noteq> [] \<and> list_all isdigit_char text"

definition lower :: "string \<Rightarrow> string" where
  "lower text = map lower_char text"

definition endswith :: "string \<Rightarrow> string \<Rightarrow> bool" where
  "endswith s suffix \<longleftrightarrow>
     length suffix \<le> length s \<and> drop (length s - length suffix) s = suffix"

definition endswith_any :: "string \<Rightarrow> string list \<Rightarrow> bool" where
  "endswith_any s suffixes \<longleftrightarrow> list_ex (endswith s) suffixes"




text \<open>
  \<^verbatim>\<open>int(text)\<close>, for the arguments the source gives it: strings on which
  \<^verbatim>\<open>isdigit()\<close> holds. Such a string has no sign, blank or underscore, so \<^verbatim>\<open>int\<close>
  returns its decimal value when every character is a decimal digit and raises
  \<^verbatim>\<open>ValueError\<close> otherwise. Python's integers are unbounded.
\<close>

definition quoted :: "string \<Rightarrow> string" where
  "quoted s = [CHR 39] @ s @ [CHR 39]"

definition digit_value :: "char \<Rightarrow> int" where
  "digit_value c = int (of_char c) - 48"

definition decimal_value :: "string \<Rightarrow> int" where
  "decimal_value text = foldl (\<lambda>acc c. 10 * acc + digit_value c) 0 text"

definition py_int :: "string \<Rightarrow> py_error + int" where
  "py_int text =
     (if text \<noteq> [] \<and> list_all is_decimal text then Inr (decimal_value text)
      else Inl (ValueError (''invalid literal for int() with base 10: '' @ quoted text)))"

section \<open>Natural sort key (mergepdf.py, natural_sort_key)\<close>

text \<open>
  \<^verbatim>\<open>re.split(r'(\d+)', s)\<close>: the pattern has one capturing group, so the result
  alternates the text between two matches with the text of the match. A match is a
  maximal run of decimal digits; the pieces at even positions (from 0) are the runs of
  other characters, empty where the string starts or ends with a digit or is empty.
\<close>

function re_split_digits :: "string \<Rightarrow> string list" where
  "re_split_digits s =
     (if dropWhile non_decimal s = [] then [takeWhile non_decimal s]
      else takeWhile non_decimal s
           # takeWhile is_decimal (dropWhile non_decimal s)
           # re_split_digits (dropWhile is_decimal (dropWhile non_decimal s)))"
  by pat_completeness auto
termination
proof (relation "measure length")
  fix s :: string
  assume ne: "dropWhile non_decimal s \<noteq> []"
  then obtain x xs where eq: "dropWhile non_decimal s = x # xs"
    by (cases "dropWhile non_decimal s") auto
  have "is_decimal x"
    using hd_dropWhile [OF ne] eq by (simp add: non_decimal_def)
  then have "length (dropWhile is_decimal (x # xs)) \<le> length xs"
    by (simp add: length_dropWhile_le)
  moreover have "length (x # xs) \<le> length s"
    using length_dropWhile_le [of non_decimal s] eq by simp
  ultimately show "(dropWhile is_decimal (dropWhile non_decimal s), s) \<in> measure length"
    by (simp add: eq)
qed simp

declare re_split_digits.simps [simp del]

text \<open>
  A token of the key: \<^verbatim>\<open>int(text)\<close> or \<^verbatim>\<open>text.lower()\<close>.
\<close>

datatype token = Num int | Text string

definition token_of :: "string \<Rightarrow> py_error + token" where
  "token_of text =
     (if isdigit text
      then (case py_int text of Inl e \<Rightarrow> Inl e | Inr n \<Rightarrow> Inr (Num n))
      else Inr (Text (lower text)))"

definition natural_sort_key :: "string \<Rightarrow> py_error + token list" where
  "natural_sort_key s = collect (map token_of (re_split_digits s))"

subsection \<open>Comparing keys\<close>

text \<open>
  \<^verbatim>\<open>list.sort\<close> compares two keys with \<^verbatim>\<open><\<close>. On two lists Python looks for the first
  position where the elements differ (by \<^verbatim>\<open>==\<close>, which is \<^verbatim>\<open>False\<close> between an
  \<^verbatim>\<open>int\<close> and a \<^verbatim>\<open>str\<close>) and compares those two elements with \<^verbatim>\<open><\<close>; when there is
  none, the shorter list is the smaller. Two strings compare by code point, two
  integers by value, and \<^verbatim>\<open><\<close> between an \<^verbatim>\<open>int\<close> and a \<^verbatim>\<open>str\<close> raises \<^verbatim>\<open>TypeError\<close>.
\<close>

fun str_lt :: "string \<Rightarrow> string \<Rightarrow> bool" where
  "str_lt [] [] = False"
| "str_lt [] (y # ys) = True"
| "str_lt (x # xs) [] = False"
| "str_lt (x # xs) (y # ys) =
     (if x = y then str_lt xs ys else (of_char x :: nat) < of_char y)"

definition not_supported :: "string \<Rightarrow> string \<Rightarrow> string" where
  "not_supported a b =
     quoted ''<'' @ '' not supported between instances of '' @ quoted a @ '' and '' @ quoted b"

fun token_lt :: "token \<Rightarrow> token \<Rightarrow> py_error + bool" where
  "token_lt (Num a) (Num b) = Inr (a < b)"
| "token_lt (Text a) (Text b) = Inr (str_lt a b)"
| "token_lt (Num a) (Text b) =
     Inl (TypeError (not_supported ''int'' ''str''))"
| "token_lt (Text a) (Num b) =
     Inl (TypeError (not_supported ''str'' ''int''))"

fun key_lt :: "token list \<Rightarrow> token list \<Rightarrow> py_error + bool" where
  "key_lt [] [] = Inr False"
| "key_lt [] (y # ys) = Inr True"
| "key_lt (x # xs) [] = Inr False"
| "key_lt (x # xs) (y # ys) = (if x = y then key_lt xs ys else token_lt x y)"


text \<open>\<^verbatim>\<open>natural_sort_key(a) < natural_sort_key(b)\<close>, the comparison of two names.\<close>

definition natural_lt :: "string \<Rightarrow> string \<Rightarrow> py_error + bool" where
  "natural_lt a b =
     (case natural_sort_key a of
        Inl e \<Rightarrow> Inl e
      | Inr ka \<Rightarrow> (case natural_sort_key b of Inl e \<Rightarrow> Inl e | Inr kb \<Rightarrow> key_lt ka kb))"



subsection \<open>Sorting by key\<close>

text \<open>
  \<^verbatim>\<open>xs.sort(key=f)\<close> first computes the key of every element, in order (an
  exception of \<open>f\<close> ends the sort), then sorts by \<^verbatim>\<open><\<close> on the keys, stably. The
  model is the stable insertion sort that uses \<^verbatim>\<open><\<close> only: an element goes before the
  first element whose key is not smaller than its own. An exception of a comparison
  ends the sort.
\<close>

fun insort_by_key :: "token list \<times> 'a \<Rightarrow> (token list \<times> 'a) list \<Rightarrow> py_error + (token list \<times> 'a) list" where
  "insort_by_key x [] = Inr [x]"
| "insort_by_key x (y # ys) =
     (case key_lt (fst y) (fst x) of
        Inl e \<Rightarrow> Inl e
      | Inr smaller \<Rightarrow>
          if smaller
          then (case insort_by_key x ys of Inl e \<Rightarrow> Inl e | Inr zs \<Rightarrow> Inr (y # zs))
          else Inr (x # y # ys))"

fun sort_decorated :: "(token list \<times> 'a) list \<Rightarrow> py_error + (token list \<times> 'a) list" where
  "sort_decorated [] = Inr []"
| "sort_decorated (x # xs) =
     (case sort_decorated xs of Inl e \<Rightarrow> Inl e | Inr ys \<Rightarrow> insort_by_key x ys)"

definition decorate :: "('a \<Rightarrow> py_error + token list) \<Rightarrow> 'a \<Rightarrow> py_error + token list \<times> 'a" where
  "decorate key x = (case key x of Inl e \<Rightarrow> Inl e | Inr k \<Rightarrow> Inr (k, x))"

definition sort_by_key :: "('a \<Rightarrow> py_error + token list) \<Rightarrow> 'a list \<Rightarrow> py_error + 'a list" where
  "sort_by_key key xs =
     (case collect (map (decorate key) xs) of
        Inl e \<Rightarrow> Inl e
      | Inr kxs \<Rightarrow>
          (case sort_decorated kxs of Inl e \<Rightarrow> Inl e | Inr ys \<Rightarrow> Inr (map snd ys)))"

section \<open>Archive to PDF (mergepdf.py, cbz_to_pdf)\<close>

text \<open>
  The ZIP reader, the file system and \<^verbatim>\<open>img2pdf\<close> are outside the program; what they
  answer is given by an environment.

  An archive is the list of its entries in directory order, each with its name and
  with what reading it gives: the bytes, or an exception. \<^verbatim>\<open>namelist()\<close> gives the
  names in that order; \<^verbatim>\<open>open(name)\<close> reads the last entry of that name.

  \<^verbatim>\<open>img2pdf.convert\<close> puts every image on a page of its own, in the order given and
  without re-encoding, and raises when it cannot read an image. A page of the PDF it
  returns is identified with the bytes of its image, and the PDF with the list of its
  pages.

  Of the output, the \<^verbatim>\<open>WARNING\<close> and \<^verbatim>\<open>ERROR\<close> lines are modelled, the progress lines
  are not.
\<close>

type_synonym bytes = string

type_synonym archive = "(string \<times> (py_error + bytes)) list"

definition namelist :: "archive \<Rightarrow> string list" where
  "namelist a = map fst a"

definition archive_read :: "archive \<Rightarrow> string \<Rightarrow> py_error + bytes" where
  "archive_read a name =
     (case map_of (rev a) name of
        None \<Rightarrow> Inl (RuntimeError (''There is no item named '' @ quoted name @ '' in the archive''))
      | Some r \<Rightarrow> r)"

record cbz_env =
  zip_open :: "string \<Rightarrow> py_error + archive"
  image_error :: "bytes \<Rightarrow> py_error option"
  open_wb_error :: "string \<Rightarrow> py_error option"
  write_error :: "string \<Rightarrow> py_error option"

fun img2pdf_convert :: "(bytes \<Rightarrow> py_error option) \<Rightarrow> bytes list \<Rightarrow> py_error + bytes list" where
  "img2pdf_convert err [] = Inr []"
| "img2pdf_convert err (img # imgs) =
     (case err img of
        Some e \<Rightarrow> Inl e
      | None \<Rightarrow>
          (case img2pdf_convert err imgs of Inl e \<Rightarrow> Inl e | Inr pages \<Rightarrow> Inr (img # pages)))"

text \<open>
  What a call leaves at \<open>output_path\<close>: nothing, a file opened for writing and left
  empty, or the PDF.
\<close>

datatype file_effect = Untouched | Truncated | Written "bytes list"

record conversion =
  messages :: "string list"
  returned :: "string option"
  output_file :: file_effect

definition image_extensions :: "string list" where
  "image_extensions = [''.jpg'', ''.jpeg'', ''.png'']"

definition is_image_name :: "string \<Rightarrow> bool" where
  "is_image_name f \<longleftrightarrow> endswith_any (lower f) image_extensions"

definition conversion_error :: "string \<Rightarrow> py_error \<Rightarrow> file_effect \<Rightarrow> conversion" where
  "conversion_error cbz_path e eff =
     \<lparr>messages = [''ERROR converting '' @ cbz_path @ '': '' @ str_of_error e],
      returned = None, output_file = eff\<rparr>"

definition cbz_to_pdf :: "cbz_env \<Rightarrow> string \<Rightarrow> string \<Rightarrow> nat \<Rightarrow> nat \<Rightarrow> conversion" where
  "cbz_to_pdf env cbz_path output_path current_num total_num =
     (case zip_open env cbz_path of
        Inl e \<Rightarrow> conversion_error cbz_path e Untouched
      | Inr archive \<Rightarrow>
          (let image_files = filter is_image_name (namelist archive) in
           if image_files = []
           then \<lparr>messages = [''WARNING: No images found in '' @ cbz_path],
                 returned = None, output_file = Untouched\<rparr>
           else
             (case sort_by_key natural_sort_key image_files of
                Inl e \<Rightarrow> conversion_error cbz_path e Untouched
              | Inr sorted_files \<Rightarrow>
                  (case collect (map (archive_read archive) sorted_files) of
                     Inl e \<Rightarrow> conversion_error cbz_path e Untouched
                   | Inr images_data \<Rightarrow>
                       (case open_wb_error env output_path of
                          Some e \<Rightarrow> conversion_error cbz_path e Untouched
                        | None \<Rightarrow>
                            (case img2pdf_convert (image_error env) images_data of
                               Inl e \<Rightarrow> conversion_error cbz_path e Truncated
                             | Inr pdf \<Rightarrow>
                                 (case write_error env output_path of
                                    Some e \<Rightarrow> conversion_error cbz_path e Truncated
                                  | None \<Rightarrow>
                                      \<lparr>messages = [], returned = Some output_path,
                                       output_file = Written pdf\<rparr>)))))))"

text \<open>
  The loop of \<^verbatim>\<open>main\<close> over the archives found (lines 224 to 228): each archive is
  converted to \<^verbatim>\<open>os.path.splitext(cbz)[0] + ".pdf"\<close>, and the path is appended to
  \<^verbatim>\<open>pdf_files\<close> when the converter returned one (\<^verbatim>\<open>if result\<close>: neither \<^verbatim>\<open>None\<close> nor
  the empty string). \<open>splitext_root\<close> stands for \<^verbatim>\<open>os.path.splitext(_)[0]\<close>, which
  depends on the platform. The result is the new \<^verbatim>\<open>pdf_files\<close> and what each call
  gave, in order.
\<close>

fun main_convert_cbz ::
  "cbz_env \<Rightarrow> (string \<Rightarrow> string) \<Rightarrow> nat \<Rightarrow> nat \<Rightarrow> string list \<Rightarrow> string list
     \<Rightarrow> string list \<times> conversion list" where
  "main_convert_cbz env splitext_root i total_num pdf_files [] = (pdf_files, [])"
| "main_convert_cbz env splitext_root i total_num pdf_files (cbz # cbz_files) =
     (let pdf_out = splitext_root cbz @ ''.pdf'';
          c = cbz_to_pdf env cbz pdf_out i total_num;
          pdf_files' = (case returned c of
                          None \<Rightarrow> pdf_files
                        | Some r \<Rightarrow> if r = [] then pdf_files else pdf_files @ [r]);
          (final, cs) = main_convert_cbz env splitext_root (Suc i) total_num pdf_files' cbz_files
      in (final, c # cs))"

section \<open>Merging (mergepdf.py, merge_pdfs_high_quality)\<close>

text \<open>
  PyMuPDF is outside the program. \<^verbatim>\<open>fitz.open(pdf_path)\<close> raises or gives a
  document; \<^verbatim>\<open>output_doc.insert_pdf(pdf_doc)\<close> appends all pages of the document to the
  output, in order, or raises, and then leaves appended whatever the environment
  says (\<open>insert_failure\<close>). Pages are values of any type \<open>'p\<close>: they are copied as
  they are.

  The state of the loop is the output document (its pages), the input documents
  that are open, by path, and the warnings printed. \<^verbatim>\<open>pdf_doc.close()\<close> is the only
  statement of the program that releases an input document; what Python's memory
  management does with a document that is no longer referenced is not modelled.
\<close>

datatype 'p document =
  Document (doc_pages: "'p list") (insert_failure: "(py_error \<times> 'p list) option")

record 'p fitz_env =
  fitz_open :: "string \<Rightarrow> py_error + 'p document"
  fitz_save_error :: "string \<Rightarrow> 'p list \<Rightarrow> py_error option"

record 'p merge_state =
  output_doc :: "'p list"
  open_docs :: "string list"
  warnings :: "string list"

definition merge_warning :: "string \<Rightarrow> py_error \<Rightarrow> string" where
  "merge_warning pdf_path e =
     [CHR 10] @ ''WARNING: Could not merge '' @ pdf_path @ '': '' @ str_of_error e"

definition merge_step :: "'p fitz_env \<Rightarrow> 'p merge_state \<Rightarrow> string \<Rightarrow> 'p merge_state" where
  "merge_step env st pdf_path =
     (case fitz_open env pdf_path of
        Inl e \<Rightarrow> st\<lparr>warnings := warnings st @ [merge_warning pdf_path e]\<rparr>
      | Inr pdf_doc \<Rightarrow>
          (let opened = st\<lparr>open_docs := pdf_path # open_docs st\<rparr> in
           case insert_failure pdf_doc of
             Some (e, left) \<Rightarrow>
               opened\<lparr>output_doc := output_doc opened @ left,
                      warnings := warnings opened @ [merge_warning pdf_path e]\<rparr>
           | None \<Rightarrow>
               opened\<lparr>output_doc := output_doc opened @ doc_pages pdf_doc,
                      open_docs := remove1 pdf_path (open_docs opened)\<rparr>))"

fun merge_loop :: "'p fitz_env \<Rightarrow> 'p merge_state \<Rightarrow> string list \<Rightarrow> 'p merge_state" where
  "merge_loop env st [] = st"
| "merge_loop env st (pdf_path # pdf_files) = merge_loop env (merge_step env st pdf_path) pdf_files"

definition merge_start :: "'p merge_state" where
  "merge_start = \<lparr>output_doc = [], open_docs = [], warnings = []\<rparr>"

text \<open>
  The function: the loop, then \<^verbatim>\<open>output_doc.save\<close>, whose exception leaves the
  function. The result is the last state of the loop and the document saved at
  \<open>output_path\<close>, or the exception.
\<close>

definition merge_pdfs_high_quality ::
  "'p fitz_env \<Rightarrow> string list \<Rightarrow> string \<Rightarrow> 'p merge_state \<times> (py_error + 'p list)" where
  "merge_pdfs_high_quality env pdf_files output_path =
     (let st = merge_loop env merge_start pdf_files in
      case fitz_save_error env output_path (output_doc st) of
        Some e \<Rightarrow> (st, Inl e)
      | None \<Rightarrow> (st, Inr (output_doc st)))"

section \<open>Output directory (mergepdf.py and resizepdf.py, get_output_directory)\<close>



section \<open>Resizing (resizepdf.py, resize_pdf)\<close>

text \<open>
  The page geometry is computed with Python's \<^verbatim>\<open>float\<close>. Its operations are taken
  as they come, as an \<open>arithmetic\<close> on a type \<open>'f\<close> of float values, with one
  operation for each operator the source applies:
  \<^verbatim>\<open>int / float\<close> (which raises \<^verbatim>\<open>ZeroDivisionError\<close> on a zero divisor and
  \<^verbatim>\<open>OverflowError\<close> on an integer too large for a float), \<^verbatim>\<open>min\<close>,
  \<^verbatim>\<open>float * float\<close>, \<^verbatim>\<open>int - float\<close>, \<^verbatim>\<open>float / 2\<close> and \<^verbatim>\<open>float + float\<close>.
  Nothing is assumed of them: what is proved of \<open>resize_pdf\<close> holds whatever the
  rounding.
\<close>

record 'f arithmetic =
  int_div_float :: "int \<Rightarrow> 'f \<Rightarrow> py_error + 'f"
  float_min :: "'f \<Rightarrow> 'f \<Rightarrow> 'f"
  float_mul :: "'f \<Rightarrow> 'f \<Rightarrow> 'f"
  int_sub_float :: "int \<Rightarrow> 'f \<Rightarrow> py_error + 'f"
  float_halve :: "'f \<Rightarrow> 'f"
  float_add :: "'f \<Rightarrow> 'f \<Rightarrow> 'f"

record 'f page_rect =
  rect_width :: 'f
  rect_height :: 'f

record 'f rect =
  x0 :: 'f
  y0 :: 'f
  x1 :: 'f
  y1 :: 'f

record 'f scaling =
  scale :: 'f
  new_width :: 'f
  new_height :: 'f

text \<open>Lines 67 to 80: the scale factor and the scaled size.\<close>

definition page_scale :: "'f arithmetic \<Rightarrow> int \<Rightarrow> int \<Rightarrow> 'f page_rect \<Rightarrow> py_error + 'f scaling" where
  "page_scale A target_width target_height page_rect =
     (let current_width = rect_width page_rect;
          current_height = rect_height page_rect
      in case int_div_float A target_width current_width of
           Inl e \<Rightarrow> Inl e
         | Inr scale_x \<Rightarrow>
             (case int_div_float A target_height current_height of
                Inl e \<Rightarrow> Inl e
              | Inr scale_y \<Rightarrow>
                  (let sc = float_min A scale_x scale_y in
                   Inr \<lparr>scale = sc,
                        new_width = float_mul A current_width sc,
                        new_height = float_mul A current_height sc\<rparr>)))"

text \<open>Lines 94 to 98: the offsets that centre the image, and its rectangle.\<close>

definition image_rect_of :: "'f arithmetic \<Rightarrow> int \<Rightarrow> int \<Rightarrow> 'f scaling \<Rightarrow> py_error + 'f rect" where
  "image_rect_of A target_width target_height g =
     (case int_sub_float A target_width (new_width g) of
        Inl e \<Rightarrow> Inl e
      | Inr dx \<Rightarrow>
          (case int_sub_float A target_height (new_height g) of
             Inl e \<Rightarrow> Inl e
           | Inr dy \<Rightarrow>
               (let x_offset = float_halve A dx;
                    y_offset = float_halve A dy
                in Inr \<lparr>x0 = x_offset, y0 = y_offset,
                        x1 = float_add A x_offset (new_width g),
                        y1 = float_add A y_offset (new_height g)\<rparr>)))"

text \<open>
  PyMuPDF and the file system, for \<open>resize_pdf\<close>. An opened document is the list
  of its pages; loading a page (\<^verbatim>\<open>doc_input[page_num]\<close>) gives its rectangle or
  raises. \<^verbatim>\<open>get_pixmap\<close> renders page \<open>page_num\<close> at a scale to an image of any type
  \<open>'x\<close>. \<^verbatim>\<open>new_page(width, height)\<close> appends a page of that size to the output
  document. A page of the output is its size and the image put on it.
\<close>

record ('f, 'x) resize_env =
  arith :: "'f arithmetic"
  input_exists :: "string \<Rightarrow> bool"
  make_dirs_error :: "string \<Rightarrow> py_error option"
  os_path_join :: "string \<Rightarrow> string \<Rightarrow> string"
  open_pages :: "string \<Rightarrow> py_error + (py_error + 'f page_rect) list"
  get_pixmap :: "nat \<Rightarrow> 'f \<Rightarrow> py_error + 'x"
  new_page_error :: "int \<Rightarrow> int \<Rightarrow> py_error option"
  insert_image_error :: "'f rect \<Rightarrow> 'x \<Rightarrow> py_error option"
  save_error :: "string \<Rightarrow> py_error option"
  getsize :: "string \<Rightarrow> py_error + nat"

record ('f, 'x) out_page =
  page_width :: int
  page_height :: int
  image_rect :: "'f rect"
  pixmap :: 'x

text \<open>
  The loop over the pages (lines 49 to 102), from page \<open>page_num\<close> on, with the
  output document built so far. The first exception ends it.
\<close>

fun resize_pages ::
  "('f, 'x) resize_env \<Rightarrow> int \<Rightarrow> int \<Rightarrow> nat \<Rightarrow> (py_error + 'f page_rect) list
     \<Rightarrow> ('f, 'x) out_page list \<Rightarrow> py_error + ('f, 'x) out_page list" where
  "resize_pages env target_width target_height page_num [] doc_output = Inr doc_output"
| "resize_pages env target_width target_height page_num (page # pages) doc_output =
     (case page of
        Inl e \<Rightarrow> Inl e
      | Inr page_rect \<Rightarrow>
          (case page_scale (arith env) target_width target_height page_rect of
             Inl e \<Rightarrow> Inl e
           | Inr g \<Rightarrow>
               (case get_pixmap env page_num (scale g) of
                  Inl e \<Rightarrow> Inl e
                | Inr pix \<Rightarrow>
                    (case new_page_error env target_width target_height of
                       Some e \<Rightarrow> Inl e
                     | None \<Rightarrow>
                         (case image_rect_of (arith env) target_width target_height g of
                            Inl e \<Rightarrow> Inl e
                          | Inr img_rect \<Rightarrow>
                              (case insert_image_error env img_rect pix of
                                 Some e \<Rightarrow> Inl e
                               | None \<Rightarrow>
                                   resize_pages env target_width target_height (Suc page_num) pages
                                     (doc_output @
                                        [\<lparr>page_width = target_width, page_height = target_height,
                                          image_rect = img_rect, pixmap = pix\<rparr>])))))))"

text \<open>
  The statistics printed after saving (lines 115 to 130) divide by the number of
  pages and by the size of the output file.
\<close>

definition statistics :: "('f, 'x) resize_env \<Rightarrow> string \<Rightarrow> string \<Rightarrow> nat \<Rightarrow> py_error + unit" where
  "statistics env input_path output_path total_pages =
     (case getsize env input_path of
        Inl e \<Rightarrow> Inl e
      | Inr input_size \<Rightarrow>
          (case getsize env output_path of
             Inl e \<Rightarrow> Inl e
           | Inr output_size \<Rightarrow>
               if total_pages = 0 then Inl (ZeroDivisionError ''float division by zero'')
               else if output_size = 0 then Inl (ZeroDivisionError ''float division by zero'')
               else Inr ()))"

text \<open>
  The result of \<open>resize_pdf\<close>: the error lines printed, the value returned (or the
  exception that leaves the function, which only \<^verbatim>\<open>mkdir\<close> can raise outside the
  \<^verbatim>\<open>try\<close>), and the document saved at the output path, if one was.
\<close>

record ('f, 'x) resized =
  resize_messages :: "string list"
  resize_returned :: "py_error + bool"
  saved_doc :: "('f, 'x) out_page list option"

definition resize_failed :: "py_error \<Rightarrow> ('f, 'x) out_page list option \<Rightarrow> ('f, 'x) resized" where
  "resize_failed e saved =
     \<lparr>resize_messages = [[CHR 10] @ ''ERROR during process: '' @ str_of_error e],
      resize_returned = Inr False, saved_doc = saved\<rparr>"

definition resize_pdf ::
  "('f, 'x) resize_env \<Rightarrow> string \<Rightarrow> string \<Rightarrow> string \<Rightarrow> int \<Rightarrow> int \<Rightarrow> ('f, 'x) resized" where
  "resize_pdf env input_path output_dir output_name target_width target_height =
     (if \<not> input_exists env input_path
      then \<lparr>resize_messages = [''ERROR: File '' @ input_path @ '' does not exist!''],
            resize_returned = Inr False, saved_doc = None\<rparr>
      else
        (case make_dirs_error env output_dir of
           Some e \<Rightarrow> \<lparr>resize_messages = [], resize_returned = Inl e, saved_doc = None\<rparr>
         | None \<Rightarrow>
             (let output_path = os_path_join env output_dir output_name in
              case open_pages env input_path of
                Inl e \<Rightarrow> resize_failed e None
              | Inr doc_input \<Rightarrow>
                  (let total_pages = length doc_input in
                   case resize_pages env target_width target_height 0 doc_input [] of
                     Inl e \<Rightarrow> resize_failed e None
                   | Inr doc_output \<Rightarrow>
                       (case save_error env output_path of
                          Some e \<Rightarrow> resize_failed e None
                        | None \<Rightarrow>
                            (case statistics env input_path output_path total_pages of
                               Inl e \<Rightarrow> resize_failed e (Some doc_output)
                             | Inr u \<Rightarrow>
                                 \<lparr>resize_messages = [], resize_returned = Inr True,
                                  saved_doc = Some doc_output\<rparr>))))))"

text \<open>
  An arithmetic without rounding, on the rationals, for running the model on pages
  whose geometry binary floating point computes exactly.
\<close>

definition exact_arithmetic :: "rat arithmetic" where
  "exact_arithmetic =
     \<lparr>int_div_float =
        (\<lambda>a b. if b = 0 then Inl (ZeroDivisionError ''float division by zero'')
               else Inr (of_int a / b)),
      float_min = min,
      float_mul = (\<lambda>a b. a * b),
      int_sub_float = (\<lambda>a b. Inr (of_int a - b)),
      float_halve = (\<lambda>a. a / 2),
      float_add = (\<lambda>a b. a + b)\<rparr>"

section \<open>What the merge loop does with one file\<close>

text \<open>
  A file is readable when \<^verbatim>\<open>fitz.open\<close> and \<^verbatim>\<open>insert_pdf\<close> both succeed on it;
  \<open>pages_at\<close> is the list of its pages.
\<close>

definition readable :: "'p fitz_env \<Rightarrow> string \<Rightarrow> bool" where
  "readable env pdf_path \<longleftrightarrow>
     (case fitz_open env pdf_path of Inl e \<Rightarrow> False | Inr d \<Rightarrow> insert_failure d = None)"

definition pages_at :: "'p fitz_env \<Rightarrow> string \<Rightarrow> 'p list" where
  "pages_at env pdf_path =
     (case fitz_open env pdf_path of Inl e \<Rightarrow> [] | Inr d \<Rightarrow> doc_pages d)"

section \<open>Example inputs\<close>




definition example_fitz_env :: "nat fitz_env" where
  "example_fitz_env =
     \<lparr>fitz_open =
        (\<lambda>p. if p = ''a.pdf'' then Inr (Document [1, 2, 3] None)
             else if p = ''b.pdf'' then Inr (Document [4, 5, 6, 7, 8] None)
             else if p = ''c.pdf'' then Inr (Document [9, 10] None)
             else if p = ''damaged.pdf''
               then Inr (Document [11, 12] (Some (RuntimeError ''cannot load object'', [])))
             else Inl (RuntimeError ''cannot open file'')),
      fitz_save_error =
        (\<lambda>p pages. if pages = [] then Some (ValueError ''cannot save with zero pages'') else None)\<rparr>"


definition example_resize_env :: "(rat, nat) resize_env" where
  "example_resize_env =
     \<lparr>arith = exact_arithmetic,
      input_exists = (\<lambda>p. p = ''/data/in/book.pdf''),
      make_dirs_error = (\<lambda>p. None),
      os_path_join = (\<lambda>a b. a @ ''/'' @ b),
      open_pages = (\<lambda>p. Inr [Inr \<lparr>rect_width = 600, rect_height = 800\<rparr>,
                                Inr \<lparr>rect_width = 400, rect_height = 200\<rparr>]),
      get_pixmap = (\<lambda>page_num sc. Inr page_num),
      new_page_error = (\<lambda>w h. None),
      insert_image_error = (\<lambda>r x. None),
      save_error = (\<lambda>p. None),
      getsize = (\<lambda>p. Inr 4096)\<rparr>"

section \<open>Properties of the natural sort key\<close>
















text \<open>
  C9. Splitting is loss-free: the pieces of \<^verbatim>\<open>re.split(r'(\d+)', s)\<close>, the digit runs
  and the runs between them, concatenated in order, give back \<open>s\<close>.
\<close>

theorem re_split_digits_concat: "concat (re_split_digits s) = s"
proof (induction s rule: re_split_digits.induct)
  case (1 s)
  show ?case
  proof (cases "dropWhile non_decimal s = []")
    case True
    then show ?thesis
      by (subst re_split_digits.simps) (simp add: takeWhile_eq_all_conv dropWhile_eq_Nil_conv)
  next
    case False
    from 1 [OF False] show ?thesis
      using False by (subst re_split_digits.simps) simp
  qed
qed

text \<open>
  C1, as amended. \<^verbatim>\<open>natural_sort_key("img2.png") < natural_sort_key("img10.png")\<close>
  holds, and so does \<^verbatim>\<open>natural_sort_key("img2a.png") < natural_sort_key("img10.png")\<close>:
  the keys \<open>['img', 2, 'a.png']\<close> and \<open>['img', 10, '.png']\<close> differ first at the
  integers \<open>2\<close> and \<open>10\<close>. The three names are ordered
  \<open>img2.png < img2a.png < img10.png\<close>.
\<close>

theorem natural_sort_key_img_order:
  "natural_sort_key ''img2.png'' = Inr [Text ''img'', Num 2, Text ''.png'']
   \<and> natural_sort_key ''img2a.png'' = Inr [Text ''img'', Num 2, Text ''a.png'']
   \<and> natural_sort_key ''img10.png'' = Inr [Text ''img'', Num 10, Text ''.png'']
   \<and> natural_lt ''img2.png'' ''img10.png'' = Inr True
   \<and> natural_lt ''img2.png'' ''img2a.png'' = Inr True
   \<and> natural_lt ''img2a.png'' ''img10.png'' = Inr True"
  by code_simp

text \<open>
  C1, as stated, fails in its second comparison:
  \<^verbatim>\<open>natural_sort_key("img10.png") < natural_sort_key("img2a.png")\<close> is \<^verbatim>\<open>False\<close>.
\<close>

theorem natural_sort_key_img10_not_before_img2a:
  "natural_lt ''img10.png'' ''img2a.png'' = Inr False"
  by code_simp

text \<open>
  C10. The claim is that every name has a key with strings at the even positions and
  integers at the odd ones, so that two keys always compare. The source decides with
  \<^verbatim>\<open>isdigit()\<close> which pieces are integers, and \<^verbatim>\<open>isdigit()\<close> holds of the superscript
  two, which is neither matched by \<^verbatim>\<open>\d\<close> nor read by \<^verbatim>\<open>int\<close>: on the name made of
  that one character, and on \<open>1\<close>, superscript two, \<open>2.png\<close>, the piece at an even
  position is passed to \<^verbatim>\<open>int\<close>, which raises \<^verbatim>\<open>ValueError\<close>. There is no key, a
  comparison with any other name raises, and so does the sort of a list that holds
  the name.
\<close>

theorem natural_sort_key_superscript_raises:
  "natural_sort_key [CHR 0xB2]
     = Inl (ValueError (''invalid literal for int() with base 10: '' @ quoted [CHR 0xB2]))
   \<and> re_split_digits ([CHR ''1'', CHR 0xB2, CHR ''2''] @ ''.png'')
     = [[], ''1'', [CHR 0xB2], ''2'', ''.png'']
   \<and> natural_sort_key ([CHR ''1'', CHR 0xB2, CHR ''2''] @ ''.png'')
     = Inl (ValueError (''invalid literal for int() with base 10: '' @ quoted [CHR 0xB2]))
   \<and> natural_lt ''a.png'' ([CHR ''1'', CHR 0xB2, CHR ''2''] @ ''.png'')
     = Inl (ValueError (''invalid literal for int() with base 10: '' @ quoted [CHR 0xB2]))
   \<and> sort_by_key natural_sort_key [''b.png'', [CHR ''1'', CHR 0xB2, CHR ''2''] @ ''.png'', ''a.png'']
     = Inl (ValueError (''invalid literal for int() with base 10: '' @ quoted [CHR 0xB2]))"
  by code_simp

section \<open>Properties of the archive converter\<close>





section \<open>Properties of the merge\<close>



lemma main_convert_cbz_length:
  "length (snd (main_convert_cbz env splitext_root i total_num pdf_files cbz_files))
     = length cbz_files"
  by (induction cbz_files arbitrary: i pdf_files) (simp_all add: Let_def split_beta)



lemma merge_step_readable:
  "readable env pdf_path \<Longrightarrow>
     merge_step env st pdf_path = st\<lparr>output_doc := output_doc st @ pages_at env pdf_path\<rparr>"
  by (auto simp: merge_step_def readable_def pages_at_def Let_def split: sum.splits)


lemma merge_loop_readable:
  "list_all (readable env) pdf_files \<Longrightarrow>
     merge_loop env st pdf_files
       = st\<lparr>output_doc := output_doc st @ concat (map (pages_at env) pdf_files)\<rparr>"
  by (induction pdf_files arbitrary: st) (simp_all add: merge_step_readable)

text \<open>
  C6. When every input can be read and the output can be saved, the document saved
  is the pages of the first input, in order, then those of the second, and so on;
  its page count is the sum of the page counts of the inputs. No warning is printed
  and no input is left open.
\<close>

theorem merge_concatenates_pages:
  assumes "list_all (readable env) pdf_files"
    and "fitz_save_error env output_path (concat (map (pages_at env) pdf_files)) = None"
  shows "snd (merge_pdfs_high_quality env pdf_files output_path)
           = Inr (concat (map (pages_at env) pdf_files))
       \<and> length (concat (map (pages_at env) pdf_files))
           = sum_list (map (\<lambda>p. length (pages_at env p)) pdf_files)
       \<and> fst (merge_pdfs_high_quality env pdf_files output_path)
           = \<lparr>output_doc = concat (map (pages_at env) pdf_files), open_docs = [], warnings = []\<rparr>"
  using assms
  by (simp add: merge_pdfs_high_quality_def merge_loop_readable merge_start_def
      length_concat comp_def)

text \<open>Inputs of 3, 5 and 2 pages give the 10 pages in order.\<close>

theorem merge_concatenates_pages_witness:
  "list_all (readable example_fitz_env) [''a.pdf'', ''b.pdf'', ''c.pdf'']
   \<and> fitz_save_error example_fitz_env ''out.pdf''
        (concat (map (pages_at example_fitz_env) [''a.pdf'', ''b.pdf'', ''c.pdf''])) = None
   \<and> map (\<lambda>p. length (pages_at example_fitz_env p)) [''a.pdf'', ''b.pdf'', ''c.pdf''] = [3, 5, 2]
   \<and> snd (merge_pdfs_high_quality example_fitz_env [''a.pdf'', ''b.pdf'', ''c.pdf''] ''out.pdf'')
        = Inr [1, 2, 3, 4, 5, 6, 7, 8, 9, 10]
   \<and> length (concat (map (pages_at example_fitz_env) [''a.pdf'', ''b.pdf'', ''c.pdf''])) = 10"
proof -
  have r: "list_all (readable example_fitz_env) [''a.pdf'', ''b.pdf'', ''c.pdf'']"
    by code_simp
  have s: "fitz_save_error example_fitz_env ''out.pdf''
        (concat (map (pages_at example_fitz_env) [''a.pdf'', ''b.pdf'', ''c.pdf''])) = None"
    by code_simp
  have p: "concat (map (pages_at example_fitz_env) [''a.pdf'', ''b.pdf'', ''c.pdf''])
             = [1, 2, 3, 4, 5, 6, 7, 8, 9, 10]"
    by code_simp
  have c: "map (\<lambda>p. length (pages_at example_fitz_env p)) [''a.pdf'', ''b.pdf'', ''c.pdf''] = [3, 5, 2]"
    by code_simp
  from merge_concatenates_pages [OF r s] r s p c show ?thesis
    by simp
qed


text \<open>
  C3. The claim is that no input document stays open from one iteration to the
  next. \<^verbatim>\<open>pdf_doc.close()\<close> is the last statement of the \<^verbatim>\<open>try\<close> block, after
  \<^verbatim>\<open>insert_pdf\<close>: when \<^verbatim>\<open>insert_pdf\<close> raises, the handler prints the warning and the
  document that \<^verbatim>\<open>fitz.open\<close> returned is not closed. After the step on
  \<open>damaged.pdf\<close> the document is open, and this is the state in which the next
  iteration begins; when \<open>damaged.pdf\<close> is the last input, the document is open
  while the output is saved.
\<close>

theorem merge_leaves_document_open:
  "fitz_open example_fitz_env ''damaged.pdf''
     = Inr (Document [11, 12] (Some (RuntimeError ''cannot load object'', [])))
   \<and> merge_step example_fitz_env merge_start ''damaged.pdf''
       = \<lparr>output_doc = [], open_docs = [''damaged.pdf''],
          warnings = [merge_warning ''damaged.pdf'' (RuntimeError ''cannot load object'')]\<rparr>
   \<and> open_docs (merge_step example_fitz_env merge_start ''c.pdf'') = []
   \<and> open_docs (fst (merge_pdfs_high_quality example_fitz_env [''c.pdf'', ''damaged.pdf''] ''out.pdf''))
       = [''damaged.pdf'']"
  by (simp add: merge_pdfs_high_quality_def merge_step_def example_fitz_env_def merge_start_def Let_def)

section \<open>Properties of get_output_directory\<close>




section \<open>Properties of the resize\<close>

lemma resize_pages_result:
  "resize_pages env tw th page_num pages doc_output = Inr res \<Longrightarrow>
     length res = length doc_output + length pages
     \<and> (\<forall>p\<in>set res. p \<in> set doc_output \<or> page_width p = tw \<and> page_height p = th)"
proof (induction pages arbitrary: page_num doc_output)
  case Nil
  then show ?case by simp
next
  case (Cons page pages)
  from Cons.prems obtain img_rect pix where
    rest: "resize_pages env tw th (Suc page_num) pages
             (doc_output @ [\<lparr>page_width = tw, page_height = th, image_rect = img_rect, pixmap = pix\<rparr>])
           = Inr res"
    by (auto split: sum.splits option.splits)
  from Cons.IH [OF rest] show ?case by auto
qed

text \<open>
  C5. Whenever \<open>resize_pdf\<close> saves a document, it has as many pages as the input
  document, and every page of it was created with the target width and the target
  height. This holds whatever the float arithmetic computes.
\<close>

theorem resize_pdf_pages:
  assumes "open_pages env input_path = Inr doc_input"
    and "saved_doc (resize_pdf env input_path output_dir output_name target_width target_height)
           = Some doc_output"
  shows "length doc_output = length doc_input
       \<and> (\<forall>p\<in>set doc_output. page_width p = target_width \<and> page_height p = target_height)"
proof -
  from assms have "resize_pages env target_width target_height 0 doc_input [] = Inr doc_output"
    by (auto simp: resize_pdf_def resize_failed_def Let_def split: if_splits option.splits sum.splits)
  from resize_pages_result [OF this] show ?thesis by simp
qed

text \<open>
  A document with a page of 600 by 800 and a page of 400 by 200, resized to 300 by
  300: the first page is scaled by 0.375 to 225 by 300 and put at (37.5, 0), the
  second by 0.75 to 300 by 150 and put at (0, 75).
\<close>

theorem resize_pdf_pages_witness:
  "open_pages example_resize_env ''/data/in/book.pdf''
     = Inr [Inr \<lparr>rect_width = 600, rect_height = 800\<rparr>, Inr \<lparr>rect_width = 400, rect_height = 200\<rparr>]
   \<and> resize_pdf example_resize_env ''/data/in/book.pdf'' ''/data/out'' ''small.pdf'' 300 300
       = \<lparr>resize_messages = [], resize_returned = Inr True,
          saved_doc = Some
            [\<lparr>page_width = 300, page_height = 300,
              image_rect = \<lparr>x0 = 75 / 2, y0 = 0, x1 = 525 / 2, y1 = 300\<rparr>, pixmap = 0\<rparr>,
             \<lparr>page_width = 300, page_height = 300,
              image_rect = \<lparr>x0 = 0, y0 = 75, x1 = 300, y1 = 225\<rparr>, pixmap = 1\<rparr>]\<rparr>
   \<and> map (\<lambda>p. (page_width p, page_height p))
        (the (saved_doc (resize_pdf example_resize_env ''/data/in/book.pdf'' ''/data/out'' ''small.pdf'' 300 300)))
       = [(300, 300), (300, 300)]"
proof -
  have o: "open_pages example_resize_env ''/data/in/book.pdf''
     = Inr [Inr \<lparr>rect_width = 600, rect_height = 800\<rparr>, Inr \<lparr>rect_width = 400, rect_height = 200\<rparr>]"
    by (simp add: example_resize_env_def)
  have r: "resize_pdf example_resize_env ''/data/in/book.pdf'' ''/data/out'' ''small.pdf'' 300 300
       = \<lparr>resize_messages = [], resize_returned = Inr True,
          saved_doc = Some
            [\<lparr>page_width = 300, page_height = 300,
              image_rect = \<lparr>x0 = 75 / 2, y0 = 0, x1 = 525 / 2, y1 = 300\<rparr>, pixmap = 0\<rparr>,
             \<lparr>page_width = 300, page_height = 300,
              image_rect = \<lparr>x0 = 0, y0 = 75, x1 = 300, y1 = 225\<rparr>, pixmap = 1\<rparr>]\<rparr>"
    by (simp add: resize_pdf_def example_resize_env_def exact_arithmetic_def statistics_def
        page_scale_def image_rect_of_def Let_def)
  then have s: "saved_doc (resize_pdf example_resize_env ''/data/in/book.pdf'' ''/data/out'' ''small.pdf'' 300 300)
       = Some
            [\<lparr>page_width = 300, page_height = 300,
              image_rect = \<lparr>x0 = 75 / 2, y0 = 0, x1 = 525 / 2, y1 = 300\<rparr>, pixmap = 0\<rparr>,
             \<lparr>page_width = 300, page_height = 300,
              image_rect = \<lparr>x0 = 0, y0 = 75, x1 = 300, y1 = 225\<rparr>, pixmap = 1\<rparr>]"
    by simp
  from resize_pdf_pages [OF o s] o r show ?thesis
    by simp
qed

text \<open>
  The page geometry without rounding: for a page and a target of positive size, the
  scale is the smaller of the two quotients, the scaled page is no wider and no
  higher than the target, and neither offset is negative. Python computes the same
  expressions in binary floating point, where a product such as
  \<open>w * (target_width / w)\<close> is rounded and can come out above \<open>target_width\<close>;
  the rounding is not part of this model.
\<close>

lemma page_geometry_exact:
  fixes w h :: rat
  assumes "0 < w" and "0 < h" and "0 < tw" and "0 < th"
  shows "\<exists>g r. page_scale exact_arithmetic tw th \<lparr>rect_width = w, rect_height = h\<rparr> = Inr g
           \<and> image_rect_of exact_arithmetic tw th g = Inr r
           \<and> scale g = min (of_int tw / w) (of_int th / h)
           \<and> new_width g \<le> of_int tw \<and> new_height g \<le> of_int th
           \<and> 0 \<le> x0 r \<and> 0 \<le> y0 r"
proof -
  let ?s = "min (of_int tw / w) (of_int th / h)"
  have "w * ?s \<le> w * (of_int tw / w)"
    using assms(1) by (intro mult_left_mono) auto
  then have fits_w: "w * ?s \<le> of_int tw"
    using assms(1) by simp
  have "h * ?s \<le> h * (of_int th / h)"
    using assms(2) by (intro mult_left_mono) auto
  then have fits_h: "h * ?s \<le> of_int th"
    using assms(2) by simp
  show ?thesis
    using assms fits_w fits_h
    by (simp add: page_scale_def image_rect_of_def exact_arithmetic_def Let_def)
qed

end
